theory Spec2Isabelle
  imports Complex_Main
begin

section \<open>Values exchanged with the Maps services\<close>

text \<open>
  The loop route service of \<open>services/mapService.ts\<close>, with the constants of
  \<open>constants.ts\<close> and the result type of \<open>types.ts\<close>.

  A JavaScript \<open>number\<close> is modelled as a real number: the development reasons about the
  arithmetic the program writes down, not about the rounding of IEEE doubles. Of an
  elevation result the service reads the \<open>elevation\<close> only.
\<close>

record LatLng =
  lat :: real
  lng :: real

record ElevationResult =
  elevation :: real
  resolution :: real

datatype Error = Error string | TypeError string

subsection \<open>Array reads\<close>

text \<open>
  \<open>xs[i]\<close> outside the array is \<open>undefined\<close> in JavaScript, and reading a property of
  \<open>undefined\<close> throws a \<open>TypeError\<close>. The index is an integer, so that \<open>i - 1\<close> below
  zero is out of range and not silently zero.
\<close>

definition arrayGet :: "'a list \<Rightarrow> int \<Rightarrow> 'a option" where
  "arrayGet xs i = (if 0 \<le> i \<and> i < int (length xs) then Some (xs ! nat i) else None)"

section \<open>Cumulative elevation gain\<close>

text \<open>
  \<^verbatim>\<open>
  function calculateCumulativeElevation(elevations) {
    let gain = 0;
    for (let i = 1; i < elevations.length; i++) {
      const diff = elevations[i].elevation - elevations[i - 1].elevation;
      if (diff > 0) { gain += diff; }
    }
    return gain;
  }
  \<close>
  The loop is the recursion \<open>elevationLoop\<close> on the index \<open>i\<close> and the running \<open>gain\<close>.
\<close>

function elevationLoop :: "ElevationResult list \<Rightarrow> nat \<Rightarrow> real \<Rightarrow> Error + real" where
  "elevationLoop elevations i gain =
     (if i < length elevations then
        (case arrayGet elevations (int i) of
           None \<Rightarrow> Inl (TypeError ''Cannot read properties of undefined (reading 'elevation')'')
         | Some cur \<Rightarrow>
            (case arrayGet elevations (int i - 1) of
               None \<Rightarrow> Inl (TypeError ''Cannot read properties of undefined (reading 'elevation')'')
             | Some prev \<Rightarrow>
                (let diff = elevation cur - elevation prev
                 in elevationLoop elevations (i + 1) (if diff > 0 then gain + diff else gain))))
      else Inr gain)"
  by pat_completeness auto
termination
  by (relation "measure (\<lambda>(elevations, i, gain). length elevations - i)") auto

definition calculateCumulativeElevation :: "ElevationResult list \<Rightarrow> Error + real" where
  "calculateCumulativeElevation elevations = elevationLoop elevations 1 0"

section \<open>Directions and elevation data\<close>

text \<open>
  The Maps typings are not part of the repository; the records below carry the fields
  the service reads. \<open>Distance.value\<close> is the field \<open>value'\<close> (a length in meters),
  optional on a leg as in \<open>leg.distance?.value\<close>. The status enumerations of the Maps
  API are strings at run time and are modelled as such.
\<close>

record Distance =
  value' :: real

record DirectionsLeg =
  distance :: "Distance option"

record DirectionsRoute =
  legs :: "DirectionsLeg list"
  overview_path :: "LatLng list"

record DirectionsResult =
  routes :: "DirectionsRoute list"

type_synonym DirectionsStatus = string

definition DirectionsStatus_OK :: DirectionsStatus where
  "DirectionsStatus_OK = ''OK''"

definition DirectionsStatus_ZERO_RESULTS :: DirectionsStatus where
  "DirectionsStatus_ZERO_RESULTS = ''ZERO_RESULTS''"

type_synonym ElevationStatus = string

definition ElevationStatus_OK :: ElevationStatus where
  "ElevationStatus_OK = ''OK''"

datatype TravelMode = BICYCLING | DRIVING | TRANSIT | WALKING

record DirectionsWaypoint =
  location :: LatLng
  stopover :: bool

record DirectionsRequest =
  origin :: LatLng
  destination :: LatLng
  waypoints :: "DirectionsWaypoint list"
  travelMode :: TravelMode
  provideRouteAlternatives :: bool

record PathElevationRequest =
  path :: "LatLng list"
  samples :: nat

text \<open>The result record of \<open>types.ts\<close>.\<close>

record OptimalRouteData =
  route :: DirectionsResult
  distanceKm :: real
  elevationGainM :: real

section \<open>The environment: \<open>window.google.maps\<close>\<close>

text \<open>
  Each of \<open>window.google\<close>, \<open>window.google.maps\<close> and \<open>window.google.maps.geometry\<close>
  may be missing. A service answers a request by calling the callback once with a result
  and a status; \<open>DirectionsService.route\<close> may also throw while the request is issued,
  which rejects the promise whose executor called it.
\<close>

datatype RouteReply =
  RouteThrows
| RouteCallback "DirectionsResult option" DirectionsStatus

datatype ElevationReply =
  ElevationCallback "ElevationResult list option" ElevationStatus

record Geometry =
  computeOffset :: "LatLng \<Rightarrow> real \<Rightarrow> real \<Rightarrow> LatLng"

record Maps =
  geometry :: "Geometry option"
  DirectionsService_route :: "DirectionsRequest \<Rightarrow> RouteReply"
  ElevationService_getElevationForPath :: "PathElevationRequest \<Rightarrow> ElevationReply"




section \<open>Constants of \<open>constants.ts\<close>\<close>




definition ELEVATION_SAMPLES :: nat where
  "ELEVATION_SAMPLES = 128"

section \<open>Candidate waypoints and requests\<close>




section \<open>Evaluating one candidate\<close>

text \<open>
  A candidate promise settles as fulfilled with a route or with \<open>null\<close>, or as rejected.
  Beside the outcome, the evaluation yields the effects it had, in order: the queries
  sent to the two services and the warnings written to the console.

  \<open>candidatePromise\<close> is the executor of the promise with the callback of
  \<open>directionsService.route\<close>, and \<open>elevationCallback\<close> the callback of
  \<open>elevationService.getElevationForPath\<close>. \<open>firstRoute\<close> is the test
  \<open>status === OK && result && result.routes && result.routes.length > 0\<close> together with
  \<open>result.routes[0]\<close>. An exception of \<open>calculateCumulativeElevation\<close> would leave the
  promise without a value; that branch is written as \<open>Rejected\<close>, and \<open>gain_sum\<close> below
  shows that it is never taken.
\<close>

datatype PromiseSettledResult = Fulfilled "OptimalRouteData option" | Rejected

datatype Effect =
  RouteQuery DirectionsRequest
| ElevationQuery PathElevationRequest
| ConsoleWarn string

definition legDistanceValue :: "DirectionsLeg \<Rightarrow> real" where
  \<comment> \<open>\<open>leg.distance?.value || 0\<close>: a missing distance and a zero value both give 0\<close>
  "legDistanceValue leg =
     (case distance leg of
        None \<Rightarrow> 0
      | Some d \<Rightarrow> if value' d = 0 then 0 else value' d)"

definition actualDistanceMeters :: "DirectionsRoute \<Rightarrow> real" where
  \<comment> \<open>\<open>route.legs.reduce((sum, leg) => sum + (leg.distance?.value || 0), 0)\<close>\<close>
  "actualDistanceMeters r = foldl (\<lambda>sum leg. sum + legDistanceValue leg) 0 (legs r)"

fun firstRoute :: "DirectionsResult option \<Rightarrow> DirectionsStatus \<Rightarrow> (DirectionsResult \<times> DirectionsRoute) option" where
  "firstRoute None status = None"
| "firstRoute (Some result) status =
     (if status = DirectionsStatus_OK
      then (case routes result of [] \<Rightarrow> None | r # _ \<Rightarrow> Some (result, r))
      else None)"

definition elevationCallback ::
  "DirectionsResult \<Rightarrow> real \<Rightarrow> ElevationResult list option \<Rightarrow> ElevationStatus
     \<Rightarrow> PromiseSettledResult \<times> Effect list" where
  "elevationCallback result meters elevationResults elevationStatus =
     (case (if elevationStatus = ElevationStatus_OK then elevationResults else None) of
        Some results \<Rightarrow>
          (case calculateCumulativeElevation results of
             Inl e \<Rightarrow> (Rejected, [])
           | Inr gain \<Rightarrow>
               (Fulfilled (Some \<lparr>route = result, distanceKm = meters / 1000,
                                 elevationGainM = gain\<rparr>), []))
      | None \<Rightarrow>
          (Fulfilled None,
           [ConsoleWarn (''Elevation query failed for a route: '' @ elevationStatus)]))"

definition candidatePromise :: "Maps \<Rightarrow> DirectionsRequest \<Rightarrow> PromiseSettledResult \<times> Effect list" where
  "candidatePromise api request =
     (case DirectionsService_route api request of
        RouteThrows \<Rightarrow> (Rejected, [RouteQuery request])
      | RouteCallback result status \<Rightarrow>
         (case firstRoute result status of
            Some (res, r) \<Rightarrow>
              (let meters = actualDistanceMeters r
               in if meters = 0 then (Fulfilled None, [RouteQuery request])
                  else
                    (let pathForElevation = overview_path r
                     in if length pathForElevation < 2 then (Fulfilled None, [RouteQuery request])
                        else
                          (let elevationRequest =
                                 \<lparr>path = pathForElevation,
                                  samples = min ELEVATION_SAMPLES (length pathForElevation)\<rparr>
                           in case ElevationService_getElevationForPath api elevationRequest of
                                ElevationCallback elevationResults elevationStatus \<Rightarrow>
                                  (let (outcome, effects) =
                                         elevationCallback res meters elevationResults elevationStatus
                                   in (outcome,
                                       [RouteQuery request, ElevationQuery elevationRequest] @ effects)))))
          | None \<Rightarrow>
              (Fulfilled None,
               RouteQuery request #
                 (if status \<noteq> DirectionsStatus_ZERO_RESULTS
                  then [ConsoleWarn (''Directions request failed: '' @ status)]
                  else []))))"

section \<open>Collecting and selecting\<close>


text \<open>
  \<open>Array.prototype.sort\<close> with a comparison function: \<open>a\<close> comes before \<open>b\<close> when
  \<open>compareFn(a, b) < 0\<close>, and elements that compare equal keep their order (the sort
  is stable since ECMAScript 2019). For a comparison function that is consistent, as
  the two below are, every stable sort returns the same array; it is computed here by
  insertion from the right.
\<close>

fun sortInsert :: "('a \<Rightarrow> 'a \<Rightarrow> real) \<Rightarrow> 'a \<Rightarrow> 'a list \<Rightarrow> 'a list" where
  "sortInsert compareFn a [] = [a]"
| "sortInsert compareFn a (b # bs) =
     (if compareFn a b \<le> 0 then a # b # bs else b # sortInsert compareFn a bs)"

definition arraySort :: "('a \<Rightarrow> 'a \<Rightarrow> real) \<Rightarrow> 'a list \<Rightarrow> 'a list" where
  "arraySort compareFn xs = foldr (sortInsert compareFn) xs []"





section \<open>The exported operation\<close>


definition elevationQueries :: "Effect list \<Rightarrow> PathElevationRequest list" where
  \<comment> \<open>the elevation queries among the effects of an evaluation, in order\<close>
  "elevationQueries effects =
     concat (map (\<lambda>e. case e of ElevationQuery q \<Rightarrow> [q] | _ \<Rightarrow> []) effects)"

section \<open>Example environments\<close>

text \<open>
  Concrete environments on which the theorems below are run. \<open>planeOffset\<close> stands in
  for the geodesic projection of the geometry library, which the service only calls.
\<close>

definition tokyo :: LatLng where
  "tokyo = \<lparr>lat = 35.6895, lng = 139.6917\<rparr>"

definition planeOffset :: "LatLng \<Rightarrow> real \<Rightarrow> real \<Rightarrow> LatLng" where
  "planeOffset p distanceMeters heading = \<lparr>lat = lat p + distanceMeters, lng = lng p + heading\<rparr>"

definition loopResult :: DirectionsResult where
  "loopResult =
     \<lparr>routes = [\<lparr>legs = [\<lparr>distance = Some \<lparr>value' = 2400\<rparr>\<rparr>,
                           \<lparr>distance = Some \<lparr>value' = 2600\<rparr>\<rparr>],
                  overview_path = [tokyo, \<lparr>lat = 35.7, lng = 139.7\<rparr>, tokyo]\<rparr>]\<rparr>"

definition workingMaps :: Maps where
  "workingMaps =
     \<lparr>geometry = Some \<lparr>computeOffset = planeOffset\<rparr>,
      DirectionsService_route = (\<lambda>request. RouteCallback (Some loopResult) DirectionsStatus_OK),
      ElevationService_getElevationForPath =
        (\<lambda>request. ElevationCallback
           (Some [\<lparr>elevation = 10, resolution = 1\<rparr>, \<lparr>elevation = 25, resolution = 1\<rparr>,
                  \<lparr>elevation = 12, resolution = 1\<rparr>])
           ElevationStatus_OK)\<rparr>"


definition mapsReturning :: "DirectionsResult \<Rightarrow> Maps" where
  \<comment> \<open>as \<open>workingMaps\<close>, with every route query answered by the given result\<close>
  "mapsReturning result =
     workingMaps\<lparr>DirectionsService_route :=
                   (\<lambda>request. RouteCallback (Some result) DirectionsStatus_OK)\<rparr>"

definition unmeasuredResult :: DirectionsResult where
  "unmeasuredResult =
     \<lparr>routes = [\<lparr>legs = [\<lparr>distance = None\<rparr>, \<lparr>distance = None\<rparr>],
                  overview_path = [tokyo, \<lparr>lat = 35.7, lng = 139.7\<rparr>, tokyo]\<rparr>]\<rparr>"

definition partlyMeasuredRoute :: DirectionsRoute where
  "partlyMeasuredRoute =
     \<lparr>legs = [\<lparr>distance = Some \<lparr>value' = 1200\<rparr>\<rparr>, \<lparr>distance = None\<rparr>,
              \<lparr>distance = Some \<lparr>value' = 800\<rparr>\<rparr>],
      overview_path = [tokyo, \<lparr>lat = 35.7, lng = 139.7\<rparr>, tokyo]\<rparr>"


definition longPathResult :: DirectionsResult where
  "longPathResult =
     \<lparr>routes = [\<lparr>legs = [\<lparr>distance = Some \<lparr>value' = 5000\<rparr>\<rparr>],
                  overview_path = replicate 200 tokyo\<rparr>]\<rparr>"

definition loopRequest :: DirectionsRequest where
  "loopRequest =
     \<lparr>origin = tokyo, destination = tokyo,
      waypoints = [\<lparr>location = planeOffset tokyo 2000 90, stopover = True\<rparr>],
      travelMode = WALKING, provideRouteAlternatives = False\<rparr>"



section \<open>Properties of the elevation gain\<close>

declare elevationLoop.simps [simp del]

lemma elevationLoop_sum:
  "1 \<le> i \<Longrightarrow> elevationLoop es i g =
     Inr (g + (\<Sum>k = i..<length es. max 0 (elevation (es ! k) - elevation (es ! (k - 1)))))"
proof (induction es i g rule: elevationLoop.induct)
  case (1 es i g)
  show ?case
  proof (cases "i < length es")
    case False
    then show ?thesis by (subst elevationLoop.simps) simp
  next
    case True
    define diff where "diff = elevation (es ! i) - elevation (es ! (i - 1))"
    define g' where "g' = (if diff > 0 then g + diff else g)"
    from True "1.prems" have cur: "arrayGet es (int i) = Some (es ! i)"
      and prev: "arrayGet es (int i - 1) = Some (es ! (i - 1))"
      by (auto simp: arrayGet_def nat_diff_distrib')
    have step: "elevationLoop es i g = elevationLoop es (i + 1) g'"
      by (subst elevationLoop.simps) (simp add: True cur prev Let_def g'_def diff_def)
    have "elevationLoop es (i + 1) g' =
        Inr (g' + (\<Sum>k = i + 1..<length es. max 0 (elevation (es ! k) - elevation (es ! (k - 1)))))"
      unfolding g'_def diff_def
      by (rule "1.IH"[OF True cur prev refl]) simp
    moreover have "g' = g + max 0 diff"
      by (simp add: g'_def max_def)
    ultimately show ?thesis
      using True step by (simp add: sum.atLeast_Suc_lessThan diff_def)
  qed
qed

lemma gain_sum:
  "calculateCumulativeElevation es =
     Inr (\<Sum>k = 1..<length es. max 0 (elevation (es ! k) - elevation (es ! (k - 1))))"
  by (simp add: calculateCumulativeElevation_def elevationLoop_sum)






text \<open>
  Claim C9. \<open>calculateCumulativeElevation\<close> returns a gain on every list of samples: no
  read of the loop is out of range, so the \<open>TypeError\<close> branch is never taken. On a list
  with fewer than two samples (empty or singleton) the gain is 0.
\<close>

theorem gain_total_and_zero_below_two_samples:
  "(\<exists>gain. calculateCumulativeElevation es = Inr gain)
   \<and> (length es < 2 \<longrightarrow> calculateCumulativeElevation es = Inr 0)"
  by (simp add: gain_sum)

theorem gain_total_and_zero_below_two_samples_witness:
  "length ([] :: ElevationResult list) < 2
   \<and> calculateCumulativeElevation [] = Inr 0
   \<and> length [\<lparr>elevation = 5, resolution = 1\<rparr>] < 2
   \<and> calculateCumulativeElevation [\<lparr>elevation = 5, resolution = 1\<rparr>] = Inr 0"
  using gain_total_and_zero_below_two_samples [of "[]"]
        gain_total_and_zero_below_two_samples [of "[\<lparr>elevation = 5, resolution = 1\<rparr>]"]
  by simp

section \<open>Properties of the selection\<close>

text \<open>
  \<open>arraySort\<close> rearranges the array and, for a comparison function that is total and
  transitive, leaves it in order; its first element is then least.
\<close>

lemma set_sortInsert: "set (sortInsert cmp a bs) = insert a (set bs)"
  by (induction bs) auto

lemma length_arraySort: "length (arraySort cmp xs) = length xs"
proof -
  have "length (sortInsert cmp a bs) = Suc (length bs)" for a bs
    by (induction bs) simp_all
  then show ?thesis by (induction xs) (simp_all add: arraySort_def)
qed

lemma set_arraySort: "set (arraySort cmp xs) = set xs"
  by (induction xs) (simp_all add: arraySort_def set_sortInsert)

lemma arraySort_ordered:
  assumes total: "\<And>a b. cmp a b \<le> 0 \<or> cmp b a \<le> 0"
    and trans: "\<And>a b c. cmp a b \<le> 0 \<Longrightarrow> cmp b c \<le> 0 \<Longrightarrow> cmp a c \<le> 0"
  shows "sorted_wrt (\<lambda>a b. cmp a b \<le> 0) (arraySort cmp xs)"
proof -
  have ins: "sorted_wrt (\<lambda>a b. cmp a b \<le> 0) (sortInsert cmp a bs)"
    if "sorted_wrt (\<lambda>a b. cmp a b \<le> 0) bs" for a bs
    using that
  proof (induction bs)
    case Nil
    show ?case by simp
  next
    case (Cons b bs)
    show ?case
    proof (cases "cmp a b \<le> 0")
      case True
      with Cons.prems trans show ?thesis by auto
    next
      case False
      with total[of a b] have "cmp b a \<le> 0" by simp
      with False Cons show ?thesis by (auto simp: set_sortInsert)
    qed
  qed
  show ?thesis
    by (induction xs) (simp_all add: arraySort_def ins)
qed
















section \<open>The service as a whole: auxiliary facts\<close>








lemma elevationCallback_effects:
  "elevationQueries (snd (elevationCallback res meters results status)) = []"
  by (simp add: elevationCallback_def elevationQueries_def gain_sum split: option.splits)


lemma candidatePromise_success:
  assumes "DirectionsService_route api request = RouteCallback (Some result) DirectionsStatus_OK"
    and "routes result = r # rest"
    and "actualDistanceMeters r \<noteq> 0" and "2 \<le> length (overview_path r)"
  shows "candidatePromise api request =
     (case ElevationService_getElevationForPath api
              \<lparr>path = overview_path r, samples = min ELEVATION_SAMPLES (length (overview_path r))\<rparr> of
        ElevationCallback elevationResults elevationStatus \<Rightarrow>
          (fst (elevationCallback result (actualDistanceMeters r) elevationResults elevationStatus),
           [RouteQuery request,
            ElevationQuery \<lparr>path = overview_path r,
                            samples = min ELEVATION_SAMPLES (length (overview_path r))\<rparr>]
           @ snd (elevationCallback result (actualDistanceMeters r) elevationResults elevationStatus)))"
  using assms
  by (simp add: candidatePromise_def Let_def split: ElevationReply.splits prod.splits)

lemma candidatePromise_degenerate:
  assumes "DirectionsService_route api request = RouteCallback (Some result) DirectionsStatus_OK"
    and "routes result = r # rest"
    and "actualDistanceMeters r = 0 \<or> length (overview_path r) < 2"
  shows "candidatePromise api request = (Fulfilled None, [RouteQuery request])"
  using assms by (auto simp: candidatePromise_def Let_def)








lemma foldl_sum: "foldl (\<lambda>sum x. sum + f x) (a::real) xs = a + sum_list (map f xs)"
  by (induction xs arbitrary: a) simp_all

lemma actualDistanceMeters_sum:
  "actualDistanceMeters r = sum_list (map legDistanceValue (legs r))"
  by (simp add: actualDistanceMeters_def foldl_sum)

lemma sum_legs_with_distance:
  "sum_list (map legDistanceValue ls) = sum_list (map value' (List.map_filter distance ls))"
  by (induction ls) (auto simp: List.map_filter_simps legDistanceValue_def split: option.splits)





lemma mapsReturning_route:
  "DirectionsService_route (mapsReturning result) request =
     RouteCallback (Some result) DirectionsStatus_OK"
  by (simp add: mapsReturning_def)

section \<open>Properties of the candidate requests\<close>



section \<open>Properties of the candidate evaluation\<close>



text \<open>
  Claim C8. For every route query answered with status OK and a first route whose
  overview path has \<open>p \<ge> 2\<close> points, each elevation query the evaluation issues is for
  that path and asks for \<open>min 128 p\<close> samples; and when the summed leg distance is not
  zero exactly one such query is issued.
\<close>

theorem elevation_query_sample_count:
  "DirectionsService_route api request = RouteCallback (Some result) DirectionsStatus_OK
   \<and> routes result = r # rest \<and> 2 \<le> length (overview_path r) \<longrightarrow>
     (\<forall>q \<in> set (elevationQueries (snd (candidatePromise api request))).
        path q = overview_path r \<and> samples q = min 128 (length (overview_path r)))
     \<and> (actualDistanceMeters r \<noteq> 0 \<longrightarrow>
          elevationQueries (snd (candidatePromise api request)) =
            [\<lparr>path = overview_path r, samples = min 128 (length (overview_path r))\<rparr>])"
proof (intro impI)
  assume a: "DirectionsService_route api request = RouteCallback (Some result) DirectionsStatus_OK
   \<and> routes result = r # rest \<and> 2 \<le> length (overview_path r)"
  let ?q = "\<lparr>path = overview_path r, samples = min 128 (length (overview_path r))\<rparr>"
  have issued: "elevationQueries (snd (candidatePromise api request)) = [?q]"
    if "actualDistanceMeters r \<noteq> 0"
  proof -
    obtain ers est where el: "ElevationService_getElevationForPath api
              \<lparr>path = overview_path r, samples = min ELEVATION_SAMPLES (length (overview_path r))\<rparr>
            = ElevationCallback ers est"
      by (cases "ElevationService_getElevationForPath api
              \<lparr>path = overview_path r, samples = min ELEVATION_SAMPLES (length (overview_path r))\<rparr>")
    have "elevationQueries (snd (candidatePromise api request)) =
            ?q # elevationQueries (snd (elevationCallback result (actualDistanceMeters r) ers est))"
      using a that el
      by (simp add: candidatePromise_success[of api request result r rest] elevationQueries_def
          ELEVATION_SAMPLES_def)
    then show ?thesis by (simp add: elevationCallback_effects)
  qed
  have none: "elevationQueries (snd (candidatePromise api request)) = []"
    if "actualDistanceMeters r = 0"
    using a that candidatePromise_degenerate[of api request result r rest]
    by (simp add: elevationQueries_def)
  show "(\<forall>q \<in> set (elevationQueries (snd (candidatePromise api request))).
        path q = overview_path r \<and> samples q = min 128 (length (overview_path r)))
     \<and> (actualDistanceMeters r \<noteq> 0 \<longrightarrow>
          elevationQueries (snd (candidatePromise api request)) = [?q])"
    using issued none by (cases "actualDistanceMeters r = 0") auto
qed

theorem elevation_query_sample_count_witness:
  "DirectionsService_route (mapsReturning longPathResult) loopRequest =
        RouteCallback (Some longPathResult) DirectionsStatus_OK
   \<and> routes longPathResult =
        [\<lparr>legs = [\<lparr>distance = Some \<lparr>value' = 5000\<rparr>\<rparr>], overview_path = replicate 200 tokyo\<rparr>]
   \<and> 2 \<le> length (replicate 200 tokyo)
   \<and> elevationQueries (snd (candidatePromise (mapsReturning longPathResult) loopRequest)) =
        [\<lparr>path = replicate 200 tokyo, samples = 128\<rparr>]
   \<and> elevationQueries (snd (candidatePromise (mapsReturning loopResult) loopRequest)) =
        [\<lparr>path = [tokyo, \<lparr>lat = 35.7, lng = 139.7\<rparr>, tokyo], samples = 3\<rparr>]"
proof -
  have long: "actualDistanceMeters
       \<lparr>legs = [\<lparr>distance = Some \<lparr>value' = 5000\<rparr>\<rparr>], overview_path = replicate 200 tokyo\<rparr> \<noteq> 0"
    by (simp add: actualDistanceMeters_def legDistanceValue_def)
  have loop: "actualDistanceMeters
       \<lparr>legs = [\<lparr>distance = Some \<lparr>value' = 2400\<rparr>\<rparr>, \<lparr>distance = Some \<lparr>value' = 2600\<rparr>\<rparr>],
        overview_path = [tokyo, \<lparr>lat = 35.7, lng = 139.7\<rparr>, tokyo]\<rparr> \<noteq> 0"
    by (simp add: actualDistanceMeters_def legDistanceValue_def)
  show ?thesis
    using elevation_query_sample_count
            [of "mapsReturning longPathResult" loopRequest longPathResult
                "\<lparr>legs = [\<lparr>distance = Some \<lparr>value' = 5000\<rparr>\<rparr>], overview_path = replicate 200 tokyo\<rparr>" "[]"]
          elevation_query_sample_count
            [of "mapsReturning loopResult" loopRequest loopResult
                "\<lparr>legs = [\<lparr>distance = Some \<lparr>value' = 2400\<rparr>\<rparr>, \<lparr>distance = Some \<lparr>value' = 2600\<rparr>\<rparr>],
                  overview_path = [tokyo, \<lparr>lat = 35.7, lng = 139.7\<rparr>, tokyo]\<rparr>" "[]"]
          long loop
    by (simp add: mapsReturning_route longPathResult_def loopResult_def)
qed

text \<open>
  Claim C10. The summed distance of a route is the sum of the values of the legs that
  carry a distance: a leg without one adds 0 meters. A route all of whose legs lack a
  distance sums to 0 meters, and its candidate settles as \<open>null\<close> after the route query
  alone: it is discarded, with no exception and no elevation query.
\<close>

theorem legs_without_distance_count_zero:
  "actualDistanceMeters r = sum_list (map value' (List.map_filter distance (legs r)))
   \<and> ((\<forall>leg \<in> set (legs r). distance leg = None) \<longrightarrow>
        actualDistanceMeters r = 0
        \<and> (DirectionsService_route api request = RouteCallback (Some result) DirectionsStatus_OK
             \<and> routes result = r # rest \<longrightarrow>
           candidatePromise api request = (Fulfilled None, [RouteQuery request])))"
proof (intro conjI impI)
  show sum: "actualDistanceMeters r = sum_list (map value' (List.map_filter distance (legs r)))"
    by (simp add: actualDistanceMeters_sum sum_legs_with_distance)
  assume none: "\<forall>leg \<in> set (legs r). distance leg = None"
  then have "List.map_filter distance (legs r) = []"
    by (simp add: List.map_filter_def filter_empty_conv)
  with sum show zero: "actualDistanceMeters r = 0" by simp
  assume "DirectionsService_route api request = RouteCallback (Some result) DirectionsStatus_OK
             \<and> routes result = r # rest"
  with zero show "candidatePromise api request = (Fulfilled None, [RouteQuery request])"
    using candidatePromise_degenerate[of api request result r rest] by simp
qed

theorem legs_without_distance_count_zero_witness:
  "map distance (legs (hd (routes unmeasuredResult))) = [None, None]
   \<and> actualDistanceMeters (hd (routes unmeasuredResult)) = 0
   \<and> DirectionsService_route (mapsReturning unmeasuredResult) loopRequest =
        RouteCallback (Some unmeasuredResult) DirectionsStatus_OK
   \<and> candidatePromise (mapsReturning unmeasuredResult) loopRequest =
        (Fulfilled None, [RouteQuery loopRequest])
   \<and> actualDistanceMeters partlyMeasuredRoute = 2000"
proof -
  have none: "\<forall>leg \<in> set (legs (hd (routes unmeasuredResult))). distance leg = None"
    by (simp add: unmeasuredResult_def)
  have dists: "map distance (legs (hd (routes unmeasuredResult))) = [None, None]"
    by (simp add: unmeasuredResult_def)
  have shape: "routes unmeasuredResult = hd (routes unmeasuredResult) # []"
    by (simp add: unmeasuredResult_def)
  have sum: "sum_list (map value' (List.map_filter distance (legs partlyMeasuredRoute))) = 2000"
    by (simp add: partlyMeasuredRoute_def List.map_filter_simps)
  show ?thesis
    using legs_without_distance_count_zero
            [of "hd (routes unmeasuredResult)" "mapsReturning unmeasuredResult" loopRequest
                unmeasuredResult "[]"]
          legs_without_distance_count_zero [of partlyMeasuredRoute]
          none dists shape sum
    by (simp add: mapsReturning_route)
qed

section \<open>Failures\<close>






end
